theory Spec2Isabelle
  imports Main
begin

section \<open>Python values and exceptions\<close>

text \<open>
  The values an \<open>image_info\<close> argument and its entries can be. A dictionary is an
  association list read with \<open>map_of\<close>; its keys are strings, the only keys the
  code looks up.
\<close>

datatype pyval =
    PNone
  | PBool bool
  | PInt int
  | PStr string
  | PList "pyval list"
  | PDict "(string \<times> pyval) list"

type_synonym pydict = "(string \<times> pyval) list"

text \<open>
  Exceptions are values, each with its message. \<open>ValidationError\<close> and
  \<open>OverflowError\<close> are what saving a document can raise.

  Modelled from the spec: \<open>custom_errors.GrayscaleError\<close> is raised by
  \<open>processing.py\<close> but the module \<open>custom_errors\<close> is not among the sources; the
  spec calls it a distinct error kind, the grayscale-requirement error, so it is a
  constructor of its own.
\<close>

datatype error =
    TypeError string
  | AttributeError string
  | ValueError string
  | IndexError string
  | KeyError string
  | GrayscaleError string
  | ValidationError string
  | OverflowError string

fun type_name :: "pyval \<Rightarrow> string" where
  "type_name PNone = ''NoneType''"
| "type_name (PBool _) = ''bool''"
| "type_name (PInt _) = ''int''"
| "type_name (PStr _) = ''str''"
| "type_name (PList _) = ''list''"
| "type_name (PDict _) = ''dict''"

text \<open>The interpreter's error for \<open>x.attr\<close> on an object without that attribute.\<close>

definition no_attribute :: "string \<Rightarrow> string \<Rightarrow> error" where
  "no_attribute tname attr =
     AttributeError ([CHR 0x27] @ tname @ [CHR 0x27] @ '' object has no attribute ''
                     @ [CHR 0x27] @ attr @ [CHR 0x27])"

text \<open>\<open>isinstance(v, dict)\<close>, \<open>isinstance(v, str)\<close>, \<open>type(v) != str\<close> negated, and
  \<open>isinstance(v, int)\<close>, which holds of a \<open>bool\<close> too.\<close>

fun isinstance_dict :: "pyval \<Rightarrow> bool" where
  "isinstance_dict (PDict _) = True"
| "isinstance_dict _ = False"

fun isinstance_str :: "pyval \<Rightarrow> bool" where
  "isinstance_str (PStr _) = True"
| "isinstance_str _ = False"

fun type_is_str :: "pyval \<Rightarrow> bool" where
  "type_is_str (PStr _) = True"
| "type_is_str _ = False"

fun isinstance_int :: "pyval \<Rightarrow> bool" where
  "isinstance_int (PInt _) = True"
| "isinstance_int (PBool _) = True"
| "isinstance_int _ = False"

section \<open>Filter Library (processing.py)\<close>

text \<open>
  An argument of a filter: a numpy array, of which the checks read the shape only, or
  any other Python value. The pixel type is a parameter.
\<close>

datatype 'a pyimage =
    NDArray "nat list" "'a list"
  | NotArray pyval

definition check_image_type :: "'a pyimage \<Rightarrow> error + bool" where
  "check_image_type img =
     (case img of
        NotArray _ \<Rightarrow> Inl (TypeError ''Image is not a numpy array'')
      | NDArray _ _ \<Rightarrow> Inr True)"

definition check_image_shape :: "'a pyimage \<Rightarrow> error + bool" where
  "check_image_shape img =
     (case img of
        NotArray v \<Rightarrow> Inl (no_attribute (type_name v) ''shape'')
      | NDArray shape _ \<Rightarrow>
          if length shape \<noteq> 2 \<and> length shape \<noteq> 3
          then Inl (ValueError ''Dimensions of input array incorrect'')
          else Inr True)"

definition check_grayscale :: "'a pyimage \<Rightarrow> error + bool" where
  "check_grayscale img =
     (case img of
        NotArray v \<Rightarrow> Inl (no_attribute (type_name v) ''shape'')
      | NDArray shape _ \<Rightarrow>
          if length shape = 3
          then Inl (GrayscaleError ''Image is a color image'')
          else Inr True)"

text \<open>
  \<open>hist_eq\<close> and \<open>reverse_video\<close> run the three checks in the source's order and then
  hand the image to the imaging library (\<open>exposure.equalize_hist\<close>, \<open>util.invert\<close>),
  which is a parameter here.
\<close>

definition hist_eq :: "('a pyimage \<Rightarrow> 'b) \<Rightarrow> 'a pyimage \<Rightarrow> error + 'b" where
  "hist_eq equalize_hist img =
     (case check_image_type img of
        Inl e \<Rightarrow> Inl e
      | Inr _ \<Rightarrow>
         (case check_image_shape img of
            Inl e \<Rightarrow> Inl e
          | Inr _ \<Rightarrow>
             (case check_grayscale img of
                Inl e \<Rightarrow> Inl e
              | Inr _ \<Rightarrow> Inr (equalize_hist img))))"

definition reverse_video :: "('a pyimage \<Rightarrow> 'b) \<Rightarrow> 'a pyimage \<Rightarrow> error + 'b" where
  "reverse_video invert img =
     (case check_image_type img of
        Inl e \<Rightarrow> Inl e
      | Inr _ \<Rightarrow>
         (case check_image_shape img of
            Inl e \<Rightarrow> Inl e
          | Inr _ \<Rightarrow>
             (case check_grayscale img of
                Inl e \<Rightarrow> Inl e
              | Inr _ \<Rightarrow> Inr (invert img))))"

section \<open>Record Store (database.py): documents and the runtime\<close>

text \<open>
  The two document classes. Of \<open>Image\<close>, the fields \<open>image\<close>, \<open>width\<close>, \<open>height\<close> and
  \<open>format\<close> are declared but no code of the repository writes or reads them, and they
  are left out. \<open>image_id\<close>, \<open>user_id\<close> and \<open>process\<close> hold strings; \<open>description\<close> and
  \<open>parent_id\<close> hold the value \<open>add_image\<close> gave the constructor (the mapper writes a
  description as text; no operation here reads it). A list or dictionary field that
  was never set reads as empty, so a new document has \<open>child_ids = []\<close> and a new user
  has no uploads. \<open>uploads\<close> is a dictionary in the order of its keys' insertion.
\<close>

record User =
  user_id :: string
  uploads :: "(string \<times> string) list"

record Image =
  image_id :: string
  user_id :: string
  timestamp :: int
  description :: pyval
  parent_id :: pyval
  child_ids :: "string list"
  process_history :: "string list"
  processing_time :: int
  process :: string

text \<open>
  The document store is outside the repository. It is modelled as two collections, each
  the list of its documents, which is what \<open>objects.all()\<close> iterates over; every
  iteration yields fresh objects, so changing one changes the store only through
  \<open>save\<close>.
\<close>

record store =
  images :: "Image list"
  users :: "User list"

text \<open>
  What the code takes from outside the repository and what differs between
  installations is a parameter of the model:
  \<^item> \<open>object_attrs\<close>: the attributes every class inherits from \<open>object\<close>, each with
    whether it is callable; they differ between versions of the interpreter;
  \<^item> \<open>image_error\<close>, \<open>user_error\<close>: what the mapper's \<open>save\<close> does with a document before
    it writes it. \<open>save\<close> validates the declared fields and encodes the document:
    \<open>None\<close> when the document is accepted, otherwise the error \<open>save\<close> raises, in which
    case nothing is written.
\<close>

record runtime =
  object_attrs :: "(string \<times> bool) list"
  image_error :: "Image \<Rightarrow> error option"
  user_error :: "User \<Rightarrow> error option"

text \<open>
  The write of an accepted document replaces the document with the same primary key, or
  appends the document when there is none; \<open>delete\<close> removes the documents with that
  key.
\<close>

fun replace_image :: "Image \<Rightarrow> Image list \<Rightarrow> Image list" where
  "replace_image i [] = [i]"
| "replace_image i (x # xs) =
     (if image_id x = image_id i then i # xs else x # replace_image i xs)"

fun replace_user :: "User \<Rightarrow> User list \<Rightarrow> User list" where
  "replace_user u [] = [u]"
| "replace_user u (x # xs) =
     (if User.user_id x = User.user_id u then u # xs else x # replace_user u xs)"

text \<open>\<open>save\<close>: raises what the mapper raises, or writes the document and returns it.\<close>

definition save_image :: "runtime \<Rightarrow> Image \<Rightarrow> store \<Rightarrow> (error + Image) \<times> store" where
  "save_image rt i s =
     (case image_error rt i of
        Some e \<Rightarrow> (Inl e, s)
      | None \<Rightarrow> (Inr i, s\<lparr>images := replace_image i (images s)\<rparr>))"

definition save_user :: "runtime \<Rightarrow> User \<Rightarrow> store \<Rightarrow> (error + User) \<times> store" where
  "save_user rt u s =
     (case user_error rt u of
        Some e \<Rightarrow> (Inl e, s)
      | None \<Rightarrow> (Inr u, s\<lparr>users := replace_user u (users s)\<rparr>))"

definition delete_image :: "Image \<Rightarrow> Image list \<Rightarrow> Image list" where
  "delete_image i xs = filter (\<lambda>x. image_id x \<noteq> image_id i) xs"

text \<open>\<open>d[k] = v\<close> on a dictionary.\<close>

fun dict_set :: "string \<Rightarrow> string \<Rightarrow> (string \<times> string) list \<Rightarrow> (string \<times> string) list" where
  "dict_set k v [] = [(k, v)]"
| "dict_set k v (x # d) = (if fst x = k then (k, v) # d else x # dict_set k v d)"

text \<open>
  What a variable of the code can hold where its type varies at run time: a plain
  value, an \<open>Image\<close> or a \<open>User\<close>.
\<close>

datatype pyobj =
    Val pyval
  | ImageObj Image
  | UserObj User

section \<open>Record Store (database.py): validation\<close>

text \<open>
  The attributes the class \<open>Processing\<close> has of its own, each with whether
  \<open>callable(getattr(Processing, name))\<close> holds: its constructor and methods, and the
  four attributes every class body gets, which are not callable.
\<close>

definition Processing_attrs :: "(string \<times> bool) list" where
  "Processing_attrs =
     [(''__dict__'', False), (''__doc__'', False), (''__init__'', True),
      (''__module__'', False), (''__weakref__'', False),
      (''_check_grayscale'', True), (''_check_image_shape'', True),
      (''_check_image_type'', True), (''blur'', True), (''contrast_stretch'', True),
      (''hist_eq'', True), (''histogram_gray'', True), (''log_compression'', True),
      (''reverse_video'', True), (''sharpen'', True)]"

text \<open>
  \<open>dir(Processing)\<close>, each name with whether the attribute is callable: the attributes
  of the class, and those of \<open>object\<close> that the class does not define itself. \<open>dir\<close>
  sorts the names; the code only tests membership, so the order is not modelled.
\<close>

definition dir_Processing :: "runtime \<Rightarrow> (string \<times> bool) list" where
  "dir_Processing rt =
     Processing_attrs
     @ filter (\<lambda>a. fst a \<notin> set (map fst Processing_attrs)) (object_attrs rt)"

text \<open>The public operations of \<open>Processing\<close>, in the order of the class body.\<close>

definition Processing_operations :: "string list" where
  "Processing_operations =
     [''hist_eq'', ''contrast_stretch'', ''log_compression'', ''reverse_video'',
      ''blur'', ''sharpen'', ''histogram_gray'']"

text \<open>The helpers of the class body whose names start with an underscore.\<close>

definition Processing_checks :: "string list" where
  "Processing_checks = [''_check_image_type'', ''_check_image_shape'', ''_check_grayscale'']"

definition valid_process :: "runtime \<Rightarrow> string \<Rightarrow> bool" where
  "valid_process rt process_name =
     (let valid_processes = map fst (filter snd (dir_Processing rt)) @ [''upload'']
      in if process_name \<notin> set valid_processes then False else True)"

text \<open>
  \<open>_image_parameter_check\<close> (an Isabelle name cannot start with an underscore). Each
  \<open>"k" not in image_info.keys()\<close> test and the read \<open>image_info["k"]\<close> that follows
  it are one \<open>case\<close> on \<open>map_of d k\<close>. The checks come in the source's order; the
  \<open>format\<close> checks are inside a string literal in the source and are not run.
\<close>

definition image_parameter_check :: "runtime \<Rightarrow> pyval \<Rightarrow> error + pydict" where
  "image_parameter_check rt image_info =
     (case image_info of
        PDict d \<Rightarrow>
         (case map_of d ''image_id'' of
            None \<Rightarrow> Inl (AttributeError ''image_info must have image_id.'')
          | Some image_id_v \<Rightarrow>
             if \<not> isinstance_str image_id_v
             then Inl (ValueError ''image_id must be type str.'')
             else
              (case map_of d ''image_data'' of
                 None \<Rightarrow> Inl (AttributeError ''image_info must have image_data.'')
               | Some image_data_v \<Rightarrow>
                  if \<not> type_is_str image_data_v
                  then Inl (TypeError ''image_data must be type str.'')
                  else
                   (case map_of d ''processing_time'' of
                      None \<Rightarrow> Inl (AttributeError ''image_info must have processing_time.'')
                    | Some processing_time_v \<Rightarrow>
                       if \<not> isinstance_int processing_time_v
                       then Inl (TypeError
                                  ''processing_time must be type int in milliseconds.'')
                       else
                        (case map_of d ''process'' of
                           None \<Rightarrow> Inl (AttributeError ''image_info must have process.'')
                         | Some (PStr process_name) \<Rightarrow>
                            if \<not> valid_process rt process_name
                            then Inl (ValueError ''process invalid.'')
                            else Inr d
                         | Some _ \<Rightarrow> Inl (TypeError ''process must be type str.'')))))
      | _ \<Rightarrow> Inl (TypeError ''image_info must be type dict.''))"

section \<open>Record Store (database.py): operations\<close>

text \<open>
  Every operation takes the store and returns its result, an error or a value, together
  with the store as it is then: what an operation had saved before it raised stays
  saved.
\<close>

text \<open>\<open>find_image\<close>: the first document with \<open>str(image.image_id) == image_id\<close>. The
  argument is any value; only a string can be equal to an identifier.\<close>

fun find_image_in :: "Image list \<Rightarrow> pyval \<Rightarrow> Image option" where
  "find_image_in [] k = None"
| "find_image_in (x # xs) k =
     (if PStr (image_id x) = k then Some x else find_image_in xs k)"

definition find_image :: "store \<Rightarrow> pyval \<Rightarrow> Image option" where
  "find_image s k = find_image_in (images s) k"

fun find_user_in :: "User list \<Rightarrow> string \<Rightarrow> User option" where
  "find_user_in [] k = None"
| "find_user_in (x # xs) k =
     (if User.user_id x = k then Some x else find_user_in xs k)"

definition find_user :: "store \<Rightarrow> string \<Rightarrow> User option" where
  "find_user s k = find_user_in (users s) k"

text \<open>\<open>image_to_json\<close> reads \<open>image.image_id\<close>, then \<open>image.user_id\<close>, of whatever it
  is given.\<close>

definition image_to_json :: "pyobj \<Rightarrow> error + pydict" where
  "image_to_json obj =
     (case obj of
        ImageObj i \<Rightarrow> Inr [(''image_id'', PStr (image_id i)), (''user_id'', PStr (user_id i))]
      | UserObj _ \<Rightarrow> Inl (no_attribute ''User'' ''image_id'')
      | Val v \<Rightarrow> Inl (no_attribute (type_name v) ''image_id''))"

definition user_to_json :: "pyobj \<Rightarrow> error + pydict" where
  "user_to_json obj =
     (case obj of
        UserObj u \<Rightarrow> Inr [(''user_id'', PStr (User.user_id u))]
      | ImageObj i \<Rightarrow> Inr [(''user_id'', PStr (user_id i))]
      | Val v \<Rightarrow> Inl (no_attribute (type_name v) ''user_id''))"

text \<open>\<open>add_user\<close> returns the dictionary of \<open>user_to_json\<close>, not the user object.\<close>

definition add_user :: "runtime \<Rightarrow> store \<Rightarrow> string \<Rightarrow> (error + pydict) \<times> store" where
  "add_user rt s uid =
     (case find_user s uid of
        Some _ \<Rightarrow> (Inl (ValueError ''User already exists!''), s)
      | None \<Rightarrow>
         (case save_user rt \<lparr>User.user_id = uid, uploads = []\<rparr> s of
            (Inl e, s1) \<Rightarrow> (Inl e, s1)
          | (Inr u, s1) \<Rightarrow> (user_to_json (UserObj u), s1)))"

text \<open>\<open>user.uploads[root_id] = recent_id\<close>, on whatever \<open>user\<close> holds.\<close>

definition set_upload :: "pyobj \<Rightarrow> string \<Rightarrow> string \<Rightarrow> error + User" where
  "set_upload obj root_id recent_id =
     (case obj of
        UserObj u \<Rightarrow> Inr (u\<lparr>uploads := dict_set root_id recent_id (uploads u)\<rparr>)
      | ImageObj _ \<Rightarrow> Inl (no_attribute ''Image'' ''uploads'')
      | Val v \<Rightarrow> Inl (no_attribute (type_name v) ''uploads''))"

text \<open>
  \<open>update_user_uploads\<close>. \<open>process_history[0]\<close> raises on the empty list. When no
  user is found, the variable \<open>user\<close> is bound to what \<open>add_user\<close> returns.
\<close>

definition update_user_uploads ::
    "runtime \<Rightarrow> store \<Rightarrow> string \<Rightarrow> string list \<Rightarrow> (error + pydict) \<times> store" where
  "update_user_uploads rt s uid history =
     (case history of
        [] \<Rightarrow> (Inl (IndexError ''list index out of range''), s)
      | root_id # _ \<Rightarrow>
          let recent_id = last history in
          (case (case find_user s uid of
                   None \<Rightarrow>
                    (case add_user rt s uid of
                       (Inl e, s1) \<Rightarrow> (Inl e, s1)
                     | (Inr j, s1) \<Rightarrow> (Inr (Val (PDict j)), s1))
                 | Some u \<Rightarrow> (Inr (UserObj u), s)) of
             (Inl e, s1) \<Rightarrow> (Inl e, s1)
           | (Inr user, s1) \<Rightarrow>
              (case set_upload user root_id recent_id of
                 Inl e \<Rightarrow> (Inl e, s1)
               | Inr user' \<Rightarrow>
                  (case save_user rt user' s1 of
                     (Inl e, s2) \<Rightarrow> (Inl e, s2)
                   | (Inr saved, s2) \<Rightarrow> (user_to_json (UserObj saved), s2)))))"

text \<open>\<open>_add_child\<close>: looks the parent up again and saves it with the child appended.\<close>

definition add_child ::
    "runtime \<Rightarrow> store \<Rightarrow> string \<Rightarrow> pyval \<Rightarrow> (error + string option) \<times> store" where
  "add_child rt s child_id parent_id_v =
     (case find_image s parent_id_v of
        Some parent_image \<Rightarrow>
         (case save_image rt (parent_image\<lparr>child_ids := child_ids parent_image @ [child_id]\<rparr>) s of
            (Inl e, s1) \<Rightarrow> (Inl e, s1)
          | (Inr _, s1) \<Rightarrow> (Inr (Some child_id), s1))
      | None \<Rightarrow> (Inr None, s))"

text \<open>
  Reads of \<open>image_info\<close> inside \<open>add_image\<close>. \<open>image_info[k]\<close> raises \<open>KeyError\<close> on a
  missing key. The fields of a document that hold a string are typed so here, and
  \<open>str_item\<close> refuses any other value; after \<open>image_parameter_check\<close> neither error
  can occur (lemma \<open>checked_items\<close>). \<open>py_int\<close> is \<open>int(v)\<close> for the values that pass
  \<open>isinstance(v, int)\<close>, the only ones that reach it.
\<close>

definition str_item :: "pydict \<Rightarrow> string \<Rightarrow> error + string" where
  "str_item d k =
     (case map_of d k of
        None \<Rightarrow> Inl (KeyError k)
      | Some (PStr x) \<Rightarrow> Inr x
      | Some _ \<Rightarrow> Inl (TypeError (k @ '' is not a str'')))"

definition py_int :: "pyval \<Rightarrow> error + int" where
  "py_int v =
     (case v of
        PInt n \<Rightarrow> Inr n
      | PBool b \<Rightarrow> Inr (if b then 1 else 0)
      | _ \<Rightarrow> Inl (TypeError ''int() argument is not an int''))"

text \<open>
  Lines 59 to 70 of \<open>add_image\<close>: the process history and the parent identifier of the
  new image. With a \<open>parent_id\<close> key, the parent is looked up and its
  \<open>process_history\<close> read without a test for \<open>None\<close>; the identifier is appended to
  the list of that object, which is never saved, and \<open>_add_child\<close> works on an object
  of its own.
\<close>

definition parent_link ::
    "runtime \<Rightarrow> store \<Rightarrow> pydict \<Rightarrow> string \<Rightarrow> (error + string list \<times> pyval) \<times> store" where
  "parent_link rt s d iid =
     (case map_of d ''parent_id'' of
        Some parent_id_v \<Rightarrow>
         (case find_image s parent_id_v of
            None \<Rightarrow> (Inl (no_attribute ''NoneType'' ''process_history''), s)
          | Some parent_image \<Rightarrow>
              let history = process_history parent_image @ [iid] in
              (case add_child rt s iid parent_id_v of
                 (Inl e, s1) \<Rightarrow> (Inl e, s1)
               | (Inr _, s1) \<Rightarrow> (Inr (history, parent_id_v), s1)))
      | None \<Rightarrow> (Inr ([iid], PStr ''root''), s))"

text \<open>Lines 72 to 76: the processing time.\<close>

definition processing_time_of :: "pydict \<Rightarrow> error + int" where
  "processing_time_of d =
     (case map_of d ''processing_time'' of
        Some v \<Rightarrow> py_int v
      | None \<Rightarrow> Inr (- 1))"

text \<open>Lines 81 to 85: the description.\<close>

definition description_of :: "pydict \<Rightarrow> pyval" where
  "description_of d =
     (case map_of d ''description'' of
        None \<Rightarrow> PStr ''None''
      | Some x \<Rightarrow> x)"

text \<open>
  \<open>add_image\<close>. \<open>current_time\<close> stands for \<open>datetime.datetime.now()\<close>. The reads of
  \<open>image_info["image_id"]\<close> and \<open>image_info["process"]\<close> are made once, at the top;
  they cannot fail after the check. The order of the effects is the source's: the
  check, the parent link (which saves the parent), the user's uploads (which saves the
  user), and last the save of the new document.
\<close>

definition add_image ::
    "runtime \<Rightarrow> int \<Rightarrow> store \<Rightarrow> string \<Rightarrow> pyval \<Rightarrow> (error + pydict) \<times> store" where
  "add_image rt current_time s uid image_info =
     (case image_parameter_check rt image_info of
        Inl e \<Rightarrow> (Inl e, s)
      | Inr d \<Rightarrow>
         (case str_item d ''image_id'' of
            Inl e \<Rightarrow> (Inl e, s)
          | Inr iid \<Rightarrow>
             (case str_item d ''process'' of
                Inl e \<Rightarrow> (Inl e, s)
              | Inr proc \<Rightarrow>
                 (case parent_link rt s d iid of
                    (Inl e, s1) \<Rightarrow> (Inl e, s1)
                  | (Inr (history, parent_id_v), s1) \<Rightarrow>
                     (case processing_time_of d of
                        Inl e \<Rightarrow> (Inl e, s1)
                      | Inr ptime \<Rightarrow>
                         (case update_user_uploads rt s1 uid history of
                            (Inl e, s2) \<Rightarrow> (Inl e, s2)
                          | (Inr _, s2) \<Rightarrow>
                             (case save_image rt
                                     \<lparr>image_id = iid,
                                      user_id = uid,
                                      timestamp = current_time,
                                      description = description_of d,
                                      parent_id = parent_id_v,
                                      child_ids = [],
                                      process_history = history,
                                      processing_time = ptime,
                                      process = proc\<rparr> s2 of
                                (Inl e, s3) \<Rightarrow> (Inl e, s3)
                              | (Inr saved, s3) \<Rightarrow>
                                  (image_to_json (ImageObj saved), s3))))))))"

text \<open>
  \<open>remove_image\<close>: the loop over \<open>Image.objects.all()\<close>, then
  \<open>image_to_json(removed)\<close> on the flag.
\<close>

fun remove_loop :: "Image list \<Rightarrow> pyval \<Rightarrow> bool \<times> store \<Rightarrow> bool \<times> store" where
  "remove_loop [] k (removed, s) = (removed, s)"
| "remove_loop (x # xs) k (removed, s) =
     (if PStr (image_id x) = k
      then remove_loop xs k (True, s\<lparr>images := delete_image x (images s)\<rparr>)
      else remove_loop xs k (removed, s))"

definition remove_image :: "store \<Rightarrow> pyval \<Rightarrow> (error + pydict) \<times> store" where
  "remove_image s k =
     (case remove_loop (images s) k (False, s) of
        (removed, s1) \<Rightarrow> (image_to_json (Val (PBool removed)), s1))"

text \<open>\<open>find_image_child\<close>: \<open>image.child_ids\<close> is read of what \<open>find_image\<close> returned,
  \<open>None\<close> included.\<close>

definition find_image_child :: "store \<Rightarrow> pyval \<Rightarrow> error + string list" where
  "find_image_child s k =
     (case find_image s k of
        None \<Rightarrow> Inl (no_attribute ''NoneType'' ''child_ids'')
      | Some i \<Rightarrow> if child_ids i \<noteq> [] then Inr (child_ids i) else Inr [])"

section \<open>The claims' own notions\<close>

text \<open>
  The kinds of error the spec names for input validation: a type error for a value of the
  wrong type, an attribute error for a required field that is missing, a value error
  for a field that is present and not valid.
\<close>

datatype error_kind = TypeKind | AttributeKind | ValueKind | OtherKind

fun kind_of :: "error \<Rightarrow> error_kind" where
  "kind_of (TypeError _) = TypeKind"
| "kind_of (AttributeError _) = AttributeKind"
| "kind_of (ValueError _) = ValueKind"
| "kind_of _ = OtherKind"

definition input_error :: "error \<Rightarrow> bool" where
  "input_error e = (kind_of e \<noteq> OtherKind)"

definition field_is :: "pydict \<Rightarrow> string \<Rightarrow> (pyval \<Rightarrow> bool) \<Rightarrow> bool" where
  "field_is d k P = (case map_of d k of None \<Rightarrow> False | Some v \<Rightarrow> P v)"

text \<open>
  A process name as claim C4 and the spec recognise it: \<open>upload\<close>, or the name of a
  public operation of \<open>Processing\<close>.
\<close>

definition recognised_as_claimed :: "pyval \<Rightarrow> bool" where
  "recognised_as_claimed v =
     (case v of PStr p \<Rightarrow> p = ''upload'' \<or> p \<in> set Processing_operations | _ \<Rightarrow> False)"

text \<open>A process name that \<open>valid_process\<close> accepts.\<close>

definition accepted_process :: "runtime \<Rightarrow> pyval \<Rightarrow> bool" where
  "accepted_process rt v = (case v of PStr p \<Rightarrow> valid_process rt p | _ \<Rightarrow> False)"

text \<open>
  A malformed \<open>image_info\<close>: not a dictionary, or one of \<open>image_id\<close>, \<open>image_data\<close>,
  \<open>processing_time\<close>, \<open>process\<close> missing, or a field of the wrong type, or a process
  name that is not recognised. \<open>malformed_as_claimed\<close> takes the names the claim
  recognises, \<open>malformed\<close> those \<open>valid_process\<close> accepts.
\<close>

definition malformed_with :: "(pyval \<Rightarrow> bool) \<Rightarrow> pyval \<Rightarrow> bool" where
  "malformed_with recognised image_info =
     (case image_info of
        PDict d \<Rightarrow>
          \<not> field_is d ''image_id'' isinstance_str
          \<or> \<not> field_is d ''image_data'' type_is_str
          \<or> \<not> field_is d ''processing_time'' isinstance_int
          \<or> \<not> field_is d ''process'' recognised
      | _ \<Rightarrow> True)"

definition malformed_as_claimed :: "pyval \<Rightarrow> bool" where
  "malformed_as_claimed image_info = malformed_with recognised_as_claimed image_info"

definition malformed :: "runtime \<Rightarrow> pyval \<Rightarrow> bool" where
  "malformed rt image_info = malformed_with (accepted_process rt) image_info"

text \<open>
  The kinds of the constraints an \<open>image_info\<close> violates, each constraint taken by
  itself, in the order of the fields, by the spec's taxonomy: a missing key is an
  attribute error, a value of the wrong type a type error, a process name that is
  refused a value error.
\<close>

definition field_kinds :: "pydict \<Rightarrow> string \<Rightarrow> (pyval \<Rightarrow> bool) \<Rightarrow> error_kind list" where
  "field_kinds d k P =
     (case map_of d k of
        None \<Rightarrow> [AttributeKind]
      | Some v \<Rightarrow> if P v then [] else [TypeKind])"

definition violated_kinds :: "runtime \<Rightarrow> pyval \<Rightarrow> error_kind list" where
  "violated_kinds rt image_info =
     (case image_info of
        PDict d \<Rightarrow>
          field_kinds d ''image_id'' isinstance_str
          @ field_kinds d ''image_data'' type_is_str
          @ field_kinds d ''processing_time'' isinstance_int
          @ field_kinds d ''process'' isinstance_str
          @ (if field_is d ''process'' isinstance_str
                \<and> \<not> field_is d ''process'' (accepted_process rt)
             then [ValueKind] else [])
      | _ \<Rightarrow> [TypeKind])"

text \<open>An \<open>image_info\<close> whose \<open>image_id\<close> is present and not a string.\<close>

definition image_id_wrong_type :: "pyval \<Rightarrow> bool" where
  "image_id_wrong_type image_info =
     (case image_info of
        PDict d \<Rightarrow> (case map_of d ''image_id'' of None \<Rightarrow> False | Some v \<Rightarrow> \<not> isinstance_str v)
      | _ \<Rightarrow> False)"

section \<open>Example inputs, stores and runtime\<close>

text \<open>
  A runtime for the examples: the attributes of \<open>object\<close> in CPython 3.6 to 3.10, and a
  mapper that refuses a document with a blank text field or a processing time outside
  64 bits, and a user with a blank identifier or an uploads key that contains a dot.
\<close>

definition cpython_object_attrs :: "(string \<times> bool) list" where
  "cpython_object_attrs =
     [(''__class__'', True), (''__delattr__'', True), (''__dir__'', True),
      (''__doc__'', False), (''__eq__'', True), (''__format__'', True),
      (''__ge__'', True), (''__getattribute__'', True), (''__gt__'', True),
      (''__hash__'', True), (''__init__'', True), (''__init_subclass__'', True),
      (''__le__'', True), (''__lt__'', True), (''__ne__'', True), (''__new__'', True),
      (''__reduce__'', True), (''__reduce_ex__'', True), (''__repr__'', True),
      (''__setattr__'', True), (''__sizeof__'', True), (''__str__'', True),
      (''__subclasshook__'', True)]"

fun blank :: "pyval \<Rightarrow> bool" where
  "blank PNone = True"
| "blank (PStr x) = (x = [])"
| "blank (PList xs) = (xs = [])"
| "blank (PDict d) = (d = [])"
| "blank _ = False"

definition mapper_image_error :: "Image \<Rightarrow> error option" where
  "mapper_image_error i =
     (if image_id i = [] \<or> user_id i = [] \<or> process i = []
         \<or> blank (description i) \<or> blank (parent_id i)
      then Some (ValidationError ''must not be blank'')
      else if processing_time i < - 9223372036854775808
              \<or> 9223372036854775807 < processing_time i
      then Some (OverflowError ''MongoDB can only handle up to 8-byte ints'')
      else None)"

definition mapper_user_error :: "User \<Rightarrow> error option" where
  "mapper_user_error u =
     (if User.user_id u = [] \<or> list_ex (\<lambda>x. CHR ''.'' \<in> set (fst x)) (uploads u)
      then Some (ValidationError ''user is not valid'')
      else None)"

definition example_runtime :: runtime where
  "example_runtime =
     \<lparr>object_attrs = cpython_object_attrs,
      image_error = mapper_image_error,
      user_error = mapper_user_error\<rparr>"

text \<open>
  A well-formed \<open>image_info\<close> of an upload and of an image derived from a parent, the
  document \<open>add_image\<close> stores for an upload, a user who made it, and a store that
  holds the image \<open>p\<close> uploaded by the user \<open>u\<close>.
\<close>

definition upload_info :: "string \<Rightarrow> pyval" where
  "upload_info iid =
     PDict [(''image_id'', PStr iid), (''image_data'', PStr ''data''),
            (''processing_time'', PInt 5), (''process'', PStr ''upload'')]"

definition derived_dict :: "string \<Rightarrow> string \<Rightarrow> pydict" where
  "derived_dict iid pid =
     [(''image_id'', PStr iid), (''image_data'', PStr ''data''),
      (''processing_time'', PInt 5), (''process'', PStr ''blur''),
      (''parent_id'', PStr pid)]"

definition derived_info :: "string \<Rightarrow> string \<Rightarrow> pyval" where
  "derived_info iid pid = PDict (derived_dict iid pid)"

definition helper_info :: "string \<Rightarrow> pyval" where
  "helper_info iid =
     PDict [(''image_id'', PStr iid), (''image_data'', PStr ''data''),
            (''processing_time'', PInt 5), (''process'', PStr ''_check_grayscale'')]"

definition uploaded :: "string \<Rightarrow> string \<Rightarrow> Image" where
  "uploaded iid uid =
     \<lparr>image_id = iid, user_id = uid, timestamp = 0, description = PStr ''None'',
      parent_id = PStr ''root'', child_ids = [], process_history = [iid],
      processing_time = 5, process = ''upload''\<rparr>"

definition uploader :: "string \<Rightarrow> string \<Rightarrow> User" where
  "uploader uid iid = \<lparr>User.user_id = uid, uploads = [(iid, iid)]\<rparr>"

definition store1 :: store where
  "store1 = \<lparr>images = [uploaded ''p'' ''u''], users = [uploader ''u'' ''p'']\<rparr>"

section \<open>Validation\<close>

lemma accepted_process_cases:
  "accepted_process rt v \<longleftrightarrow> (\<exists>p. v = PStr p \<and> valid_process rt p)"
  by (cases v) (simp_all add: accepted_process_def)

lemma isinstance_str_iff: "isinstance_str v \<longleftrightarrow> (\<exists>p. v = PStr p)"
  by (cases v) simp_all

lemma image_parameter_check_dict:
  "image_parameter_check rt (PDict d) =
     (case map_of d ''image_id'' of
        None \<Rightarrow> Inl (AttributeError ''image_info must have image_id.'')
      | Some a \<Rightarrow>
         if \<not> isinstance_str a then Inl (ValueError ''image_id must be type str.'')
         else (case map_of d ''image_data'' of
            None \<Rightarrow> Inl (AttributeError ''image_info must have image_data.'')
          | Some b \<Rightarrow>
             if \<not> type_is_str b then Inl (TypeError ''image_data must be type str.'')
             else (case map_of d ''processing_time'' of
                None \<Rightarrow> Inl (AttributeError ''image_info must have processing_time.'')
              | Some c \<Rightarrow>
                 if \<not> isinstance_int c
                 then Inl (TypeError ''processing_time must be type int in milliseconds.'')
                 else (case map_of d ''process'' of
                    None \<Rightarrow> Inl (AttributeError ''image_info must have process.'')
                  | Some p \<Rightarrow>
                     if \<not> isinstance_str p then Inl (TypeError ''process must be type str.'')
                     else if \<not> accepted_process rt p then Inl (ValueError ''process invalid.'')
                     else Inr d))))"
  by (simp add: image_parameter_check_def accepted_process_def
      split: option.splits pyval.splits)

lemma check_malformed:
  assumes "malformed rt v"
  shows "\<exists>e. image_parameter_check rt v = Inl e \<and> input_error e
            \<and> (image_id_wrong_type v \<or> (\<exists>ks. violated_kinds rt v = kind_of e # ks))"
proof (cases v)
  case (PDict d)
  then show ?thesis using assms
    by (auto simp: image_parameter_check_dict malformed_def malformed_with_def
          violated_kinds_def field_kinds_def field_is_def image_id_wrong_type_def
          input_error_def
        split: option.splits)
qed (simp_all add: violated_kinds_def image_parameter_check_def input_error_def)

lemma check_wellformed:
  assumes "\<not> malformed rt v"
  shows "violated_kinds rt v = [] \<and> (\<exists>d. image_parameter_check rt v = Inr d)"
proof (cases v)
  case (PDict d)
  then show ?thesis using assms
    by (auto simp: image_parameter_check_dict malformed_def malformed_with_def
          violated_kinds_def field_kinds_def field_is_def accepted_process_cases
        split: option.splits)
qed (use assms in \<open>simp_all add: malformed_def malformed_with_def\<close>)

lemma checked_items:
  assumes "image_parameter_check rt v = Inr d"
  shows "v = PDict d \<and> (\<exists>iid proc n. str_item d ''image_id'' = Inr iid
           \<and> str_item d ''process'' = Inr proc \<and> valid_process rt proc
           \<and> processing_time_of d = Inr n)"
proof (cases v)
  case (PDict d')
  then show ?thesis using assms
    by (auto simp: image_parameter_check_dict str_item_def processing_time_of_def py_int_def
          accepted_process_cases isinstance_str_iff
        split: option.splits if_splits elim: isinstance_int.elims)
qed (use assms in \<open>simp_all add: image_parameter_check_def\<close>)

lemma valid_upload: "valid_process rt ''upload''"
  by (simp add: valid_process_def)

lemma valid_blur: "valid_process rt ''blur''"
  by (simp add: valid_process_def dir_Processing_def Processing_attrs_def)

lemma valid_check_grayscale: "valid_process rt ''_check_grayscale''"
  by (simp add: valid_process_def dir_Processing_def Processing_attrs_def)

lemma check_upload_info:
  "image_parameter_check rt (upload_info iid) =
     Inr [(''image_id'', PStr iid), (''image_data'', PStr ''data''),
          (''processing_time'', PInt 5), (''process'', PStr ''upload'')]"
  by (simp add: upload_info_def image_parameter_check_def valid_upload)

lemma check_derived_info:
  "image_parameter_check rt (derived_info iid pid) = Inr (derived_dict iid pid)"
  by (simp add: derived_info_def derived_dict_def image_parameter_check_def valid_blur)

lemma check_helper_info:
  "image_parameter_check rt (helper_info iid) =
     Inr [(''image_id'', PStr iid), (''image_data'', PStr ''data''),
          (''processing_time'', PInt 5), (''process'', PStr ''_check_grayscale'')]"
  by (simp add: helper_info_def image_parameter_check_def valid_check_grayscale)

lemma own_callables:
  "set (map fst (filter snd Processing_attrs)) =
     insert ''__init__'' (set Processing_operations \<union> set Processing_checks)"
  by (auto simp: Processing_attrs_def Processing_operations_def Processing_checks_def)

lemma inherited_callables:
  "p \<in> set (map fst (filter snd (filter (\<lambda>a. fst a \<notin> S) oa)))
     \<longleftrightarrow> p \<notin> S \<and> (p, True) \<in> set oa"
  by force

section \<open>The collections\<close>

lemma find_image_in_id: "find_image_in xs k = Some x \<Longrightarrow> PStr (image_id x) = k"
  by (induction xs) (auto split: if_splits)

lemma find_image_in_mem: "find_image_in xs k = Some x \<Longrightarrow> x \<in> set xs"
  by (induction xs) (auto split: if_splits)

lemma find_image_in_None:
  "find_image_in xs k = None \<Longrightarrow> x \<in> set xs \<Longrightarrow> PStr (image_id x) \<noteq> k"
  by (induction xs) (auto split: if_splits)

lemma find_image_in_filter:
  "find_image_in (filter (\<lambda>x. PStr (image_id x) \<noteq> k) xs) k = None"
  by (induction xs) auto

lemma find_image_in_replace_same:
  "find_image_in (replace_image i xs) (PStr (image_id i)) = Some i"
  by (induction xs) auto

lemma find_image_in_replace_other:
  "k \<noteq> PStr (image_id i) \<Longrightarrow> find_image_in (replace_image i xs) k = find_image_in xs k"
  by (induction xs) auto

lemma find_user_in_id: "find_user_in xs k = Some x \<Longrightarrow> User.user_id x = k"
  by (induction xs) (auto split: if_splits)

lemma find_user_in_replace_same:
  "find_user_in (replace_user u xs) (User.user_id u) = Some u"
  by (induction xs) auto

lemma replace_user_absent:
  "find_user_in xs (User.user_id u) = None \<Longrightarrow> replace_user u xs = xs @ [u]"
  by (induction xs) (auto split: if_splits)

lemma map_of_dict_set: "map_of (dict_set k v d) k = Some v"
  by (induction d) auto

lemma save_image_accepted:
  "image_error rt i = None \<Longrightarrow>
     save_image rt i s = (Inr i, s\<lparr>images := replace_image i (images s)\<rparr>)"
  by (simp add: save_image_def)

lemma save_user_accepted:
  "user_error rt u = None \<Longrightarrow>
     save_user rt u s = (Inr u, s\<lparr>users := replace_user u (users s)\<rparr>)"
  by (simp add: save_user_def)

section \<open>Users and uploads\<close>

lemma update_user_uploads_present:
  assumes "find_user s uid = Some u"
    and "user_error rt (u\<lparr>uploads := dict_set x (last (x # xs)) (uploads u)\<rparr>) = None"
  shows "update_user_uploads rt s uid (x # xs) =
     (Inr [(''user_id'', PStr uid)],
      s\<lparr>users := replace_user (u\<lparr>uploads := dict_set x (last (x # xs)) (uploads u)\<rparr>)
                    (users s)\<rparr>)"
proof -
  have "User.user_id u = uid" using assms(1) by (auto simp: find_user_def dest: find_user_in_id)
  then show ?thesis using assms
    by (simp add: update_user_uploads_def set_upload_def user_to_json_def save_user_def)
qed

lemma update_user_uploads_absent:
  assumes "find_user s uid = None"
    and "user_error rt \<lparr>User.user_id = uid, uploads = []\<rparr> = None"
  shows "update_user_uploads rt s uid (x # xs) =
     (Inl (no_attribute ''dict'' ''uploads''),
      s\<lparr>users := users s @ [\<lparr>User.user_id = uid, uploads = []\<rparr>]\<rparr>)"
  using assms
  by (simp add: update_user_uploads_def add_user_def user_to_json_def set_upload_def
      find_user_def replace_user_absent save_user_def)

lemma update_user_uploads_known_user:
  assumes "find_user s uid = Some u" and "h \<noteq> []"
    and "user_error rt (u\<lparr>uploads := dict_set (hd h) (last h) (uploads u)\<rparr>) = None"
  shows "update_user_uploads rt s uid h =
     (Inr [(''user_id'', PStr uid)],
      s\<lparr>users := replace_user (u\<lparr>uploads := dict_set (hd h) (last h) (uploads u)\<rparr>)
                    (users s)\<rparr>)"
proof -
  obtain x xs where h: "h = x # xs" using assms(2) by (cases h) auto
  show ?thesis using update_user_uploads_present[of s uid u rt x xs] assms(1,3)
    unfolding h by simp
qed

text \<open>
  For a user who has a record that the mapper accepts with the new entry,
  \<open>update_user_uploads\<close> does what its description says: afterwards the user's uploads
  map the first entry of the history to the last.
\<close>

lemma update_user_uploads_sets_upload:
  assumes "find_user s uid = Some u" and "h \<noteq> []"
    and "user_error rt (u\<lparr>uploads := dict_set (hd h) (last h) (uploads u)\<rparr>) = None"
  shows "\<exists>u'. find_user (snd (update_user_uploads rt s uid h)) uid = Some u'
            \<and> map_of (uploads u') (hd h) = Some (last h)"
proof -
  have "User.user_id u = uid"
    using assms(1) by (auto simp: find_user_def dest: find_user_in_id)
  then show ?thesis
    using find_user_in_replace_same[of "u\<lparr>uploads := dict_set (hd h) (last h) (uploads u)\<rparr>"
        "users s"]
    by (simp add: update_user_uploads_known_user[OF assms] find_user_def map_of_dict_set)
qed

section \<open>Removing and finding images\<close>

lemma remove_loop_eq:
  "remove_loop xs k (r, s) =
     (if \<exists>x \<in> set xs. PStr (image_id x) = k
      then (True, s\<lparr>images := filter (\<lambda>x. PStr (image_id x) \<noteq> k) (images s)\<rparr>)
      else (r, s))"
proof (induction xs arbitrary: r s)
  case Nil
  then show ?case by simp
next
  case (Cons a xs)
  show ?case
  proof (cases "PStr (image_id a) = k")
    case True
    then have del: "delete_image a ys = filter (\<lambda>x. PStr (image_id x) \<noteq> k) ys" for ys
      by (auto simp: delete_image_def intro: filter_cong)
    show ?thesis using True by (simp add: Cons.IH del)
  next
    case False
    then show ?thesis by (simp add: Cons.IH)
  qed
qed

text \<open>\<open>remove_image\<close> never returns: \<open>image_to_json\<close> is given the flag, found or not.\<close>

lemma remove_image_always_raises:
  "fst (remove_image s k) = Inl (no_attribute ''bool'' ''image_id'')"
  by (simp add: remove_image_def remove_loop_eq image_to_json_def)

lemma remove_image_not_found:
  assumes "find_image s k = None"
  shows "remove_image s k = (Inl (no_attribute ''bool'' ''image_id''), s)"
proof -
  have "\<not> (\<exists>x \<in> set (images s). PStr (image_id x) = k)"
    using assms find_image_in_None unfolding find_image_def by blast
  then show ?thesis by (simp add: remove_image_def remove_loop_eq image_to_json_def)
qed

text \<open>For an image that is in the store, \<open>find_image_child\<close> returns its children.\<close>

lemma find_image_child_found:
  assumes "find_image s k = Some i"
  shows "find_image_child s k = Inr (child_ids i)"
  using assms by (simp add: find_image_child_def)

section \<open>Adding images\<close>

text \<open>
  For a user who has a record, and where the mapper accepts the user's record and the
  new document, \<open>add_image\<close> of a well-formed \<open>image_info\<close> without \<open>parent_id\<close> stores the
  document with the history \<open>[image_id]\<close> and the parent \<open>root\<close>, and returns the two
  identifiers.
\<close>

lemma add_image_root_known_user:
  assumes chk: "image_parameter_check rt v = Inr d"
    and nop: "map_of d ''parent_id'' = None"
    and usr: "find_user s uid = Some u"
    and iid: "str_item d ''image_id'' = Inr iid"
    and proc: "str_item d ''process'' = Inr proc"
    and ptime: "processing_time_of d = Inr n"
    and okU: "user_error rt (u\<lparr>uploads := dict_set iid iid (uploads u)\<rparr>) = None"
    and okI: "image_error rt
        \<lparr>image_id = iid, user_id = uid, timestamp = t, description = description_of d,
         parent_id = PStr ''root'', child_ids = [], process_history = [iid],
         processing_time = n, process = proc\<rparr> = None"
  shows "\<exists>i s'. add_image rt t s uid v
                 = (Inr [(''image_id'', PStr iid), (''user_id'', PStr uid)], s')
      \<and> find_image s' (PStr iid) = Some i
      \<and> process_history i = [iid] \<and> parent_id i = PStr ''root''"
proof -
  define i where "i = \<lparr>image_id = iid, user_id = uid, timestamp = t,
      description = description_of d, parent_id = PStr ''root'', child_ids = [],
      process_history = [iid], processing_time = n, process = proc\<rparr>"
  define s' where "s' = s\<lparr>users := replace_user (u\<lparr>uploads := dict_set iid iid (uploads u)\<rparr>)
                                      (users s),
                          images := replace_image i (images s)\<rparr>"
  have pl: "parent_link rt s d iid = (Inr ([iid], PStr ''root''), s)"
    by (simp add: parent_link_def nop)
  have up: "update_user_uploads rt s uid [iid] =
      (Inr [(''user_id'', PStr uid)],
       s\<lparr>users := replace_user (u\<lparr>uploads := dict_set iid iid (uploads u)\<rparr>) (users s)\<rparr>)"
    using update_user_uploads_present[OF usr, of rt iid "[]"] okU by simp
  have sv: "image_error rt i = None" using okI by (simp add: i_def)
  have run: "add_image rt t s uid v
               = (Inr [(''image_id'', PStr iid), (''user_id'', PStr uid)], s')"
    using sv
    by (simp add: add_image_def chk iid proc ptime pl up save_image_def
        image_to_json_def s'_def i_def[symmetric])
       (simp add: i_def)
  have "image_id i = iid" by (simp add: i_def)
  then have "find_image s' (PStr iid) = Some i"
    using find_image_in_replace_same[of i "images s"] by (simp add: find_image_def s'_def)
  then show ?thesis using run by (auto simp: i_def)
qed

section \<open>The claims\<close>

text \<open>
  C1. Claim: for every well-formed \<open>image_info\<close> with a recognised process name and no
  \<open>parent_id\<close>, \<open>add_image\<close> stores a record with \<open>process_history = [image_id]\<close> and
  \<open>parent_id = "root"\<close> and returns \<open>image_id\<close> and \<open>user_id\<close>.

  The code does so for a user who has a record, where the mapper accepts the documents
  (\<open>add_image_root_known_user\<close>). For a user without a record it does not:
  \<open>update_user_uploads\<close> binds \<open>user\<close> to the dictionary that \<open>add_user\<close> returns,
  \<open>user.uploads\<close> raises \<open>AttributeError\<close>, and \<open>add_image\<close> ends before the image is
  saved. The store is left with the new user and without the image. Here the user \<open>v\<close>
  uploads the image \<open>a\<close> to \<open>store1\<close>.
\<close>

theorem add_image_first_upload_raises:
  "add_image example_runtime 0 store1 ''v'' (upload_info ''a'') =
     (Inl (no_attribute ''dict'' ''uploads''),
      store1\<lparr>users := users store1 @ [\<lparr>User.user_id = ''v'', uploads = []\<rparr>]\<rparr>)"
  by (simp add: add_image_def check_upload_info str_item_def parent_link_def
      processing_time_of_def py_int_def update_user_uploads_def add_user_def find_user_def
      user_to_json_def set_upload_def store1_def uploader_def save_user_def
      example_runtime_def mapper_user_error_def)

text \<open>
  C2, as amended. For every well-formed \<open>image_info\<close> whose \<open>parent_id\<close> names an image
  \<open>P\<close> of the store, whose \<open>image_id\<close> is not the identifier of \<open>P\<close>, for a user who
  has a record, and where the mapper accepts the three documents that are saved (\<open>P\<close>
  with the new child, the user with the new upload, the new record): \<open>add_image\<close>
  returns the two identifiers, the stored \<open>P\<close> has the \<open>image_id\<close> appended to its
  \<open>child_ids\<close> and is otherwise unchanged, and the new record has the history of \<open>P\<close>
  extended by the \<open>image_id\<close>, and \<open>P\<close> as its parent.
\<close>

theorem add_image_child_links_parent:
  assumes chk: "image_parameter_check rt v = Inr d"
    and par: "map_of d ''parent_id'' = Some pv"
    and fnd: "find_image s pv = Some P"
    and iid: "str_item d ''image_id'' = Inr iid"
    and neq: "iid \<noteq> image_id P"
    and usr: "find_user s uid = Some u"
    and proc: "str_item d ''process'' = Inr proc"
    and ptime: "processing_time_of d = Inr n"
    and okP: "image_error rt (P\<lparr>child_ids := child_ids P @ [iid]\<rparr>) = None"
    and okU: "user_error rt
        (u\<lparr>uploads := dict_set (hd (process_history P @ [iid])) iid (uploads u)\<rparr>) = None"
    and okI: "image_error rt
        \<lparr>image_id = iid, user_id = uid, timestamp = t, description = description_of d,
         parent_id = pv, child_ids = [], process_history = process_history P @ [iid],
         processing_time = n, process = proc\<rparr> = None"
  shows "\<exists>s' i. add_image rt t s uid v
               = (Inr [(''image_id'', PStr iid), (''user_id'', PStr uid)], s')
      \<and> find_image s' pv = Some (P\<lparr>child_ids := child_ids P @ [iid]\<rparr>)
      \<and> find_image s' (PStr iid) = Some i
      \<and> process_history i = process_history P @ [iid]
      \<and> parent_id i = pv"
proof -
  have pv: "pv = PStr (image_id P)"
    using fnd find_image_in_id unfolding find_image_def by metis
  define P' where "P' = P\<lparr>child_ids := child_ids P @ [iid]\<rparr>"
  define s1 where "s1 = s\<lparr>images := replace_image P' (images s)\<rparr>"
  have pl: "parent_link rt s d iid = (Inr (process_history P @ [iid], pv), s1)"
    using okP
    by (simp add: parent_link_def par fnd add_child_def save_image_def s1_def P'_def)
  have usr1: "find_user s1 uid = Some u"
    using usr by (simp add: find_user_def s1_def)
  define i where "i = \<lparr>image_id = iid, user_id = uid, timestamp = t,
      description = description_of d, parent_id = pv, child_ids = [],
      process_history = process_history P @ [iid], processing_time = n, process = proc\<rparr>"
  define u' where
    "u' = u\<lparr>uploads := dict_set (hd (process_history P @ [iid])) iid (uploads u)\<rparr>"
  define s2 where "s2 = s1\<lparr>users := replace_user u' (users s1)\<rparr>"
  define s' where "s' = s2\<lparr>images := replace_image i (images s2)\<rparr>"
  have up: "update_user_uploads rt s1 uid (process_history P @ [iid])
              = (Inr [(''user_id'', PStr uid)], s2)"
    using update_user_uploads_known_user[OF usr1, of "process_history P @ [iid]" rt] okU
    by (simp add: s2_def u'_def)
  have sv: "save_image rt i s2 = (Inr i, s')"
    using okI by (simp add: save_image_def i_def s'_def)
  have id_i: "image_id i = iid" and us_i: "user_id i = uid" by (simp_all add: i_def)
  have run: "add_image rt t s uid v
               = (Inr [(''image_id'', PStr iid), (''user_id'', PStr uid)], s')"
    using sv
    by (simp add: add_image_def chk iid proc ptime pl up i_def[symmetric]
        image_to_json_def id_i us_i)
  have id_P': "image_id P' = image_id P" by (simp add: P'_def)
  have "find_image_in (images s1) pv = Some P'"
    unfolding s1_def pv using find_image_in_replace_same[of P' "images s"]
    by (simp add: id_P')
  moreover have "pv \<noteq> PStr (image_id i)" using neq by (simp add: pv id_i)
  ultimately have f1: "find_image s' pv = Some P'"
    by (simp add: find_image_def s'_def s2_def find_image_in_replace_other)
  have f2: "find_image s' (PStr iid) = Some i"
    using find_image_in_replace_same[of i "images s2"]
    by (simp add: find_image_def s'_def id_i)
  show ?thesis using run f1 f2 by (simp add: P'_def i_def)
qed

text \<open>The user \<open>u\<close> adds the image \<open>c\<close>, derived from the image \<open>p\<close> of \<open>store1\<close>.\<close>

theorem add_image_child_links_parent_witness:
  "image_parameter_check example_runtime (derived_info ''c'' ''p'')
     = Inr (derived_dict ''c'' ''p'')
   \<and> map_of (derived_dict ''c'' ''p'') ''parent_id'' = Some (PStr ''p'')
   \<and> find_image store1 (PStr ''p'') = Some (uploaded ''p'' ''u'')
   \<and> str_item (derived_dict ''c'' ''p'') ''image_id'' = Inr ''c''
   \<and> ''c'' \<noteq> image_id (uploaded ''p'' ''u'')
   \<and> find_user store1 ''u'' = Some (uploader ''u'' ''p'')
   \<and> str_item (derived_dict ''c'' ''p'') ''process'' = Inr ''blur''
   \<and> processing_time_of (derived_dict ''c'' ''p'') = Inr 5
   \<and> image_error example_runtime ((uploaded ''p'' ''u'')\<lparr>child_ids := [''c'']\<rparr>) = None
   \<and> user_error example_runtime
        ((uploader ''u'' ''p'')\<lparr>uploads := [(''p'', ''c'')]\<rparr>) = None
   \<and> (\<exists>s' i. add_image example_runtime 0 store1 ''u'' (derived_info ''c'' ''p'')
               = (Inr [(''image_id'', PStr ''c''), (''user_id'', PStr ''u'')], s')
      \<and> find_image s' (PStr ''p'') = Some ((uploaded ''p'' ''u'')\<lparr>child_ids := [''c'']\<rparr>)
      \<and> find_image s' (PStr ''c'') = Some i
      \<and> process_history i = [''p'', ''c'']
      \<and> parent_id i = PStr ''p'')"
proof -
  have h1: "image_parameter_check example_runtime (derived_info ''c'' ''p'')
              = Inr (derived_dict ''c'' ''p'')"
    by (rule check_derived_info)
  have h2: "map_of (derived_dict ''c'' ''p'') ''parent_id'' = Some (PStr ''p'')"
    by (simp add: derived_dict_def)
  have h3: "find_image store1 (PStr ''p'') = Some (uploaded ''p'' ''u'')"
    by (simp add: find_image_def store1_def uploaded_def)
  have h4: "str_item (derived_dict ''c'' ''p'') ''image_id'' = Inr ''c''"
    by (simp add: str_item_def derived_dict_def)
  have h5: "''c'' \<noteq> image_id (uploaded ''p'' ''u'')" by (simp add: uploaded_def)
  have h6: "find_user store1 ''u'' = Some (uploader ''u'' ''p'')"
    by (simp add: find_user_def store1_def uploader_def)
  have h7: "str_item (derived_dict ''c'' ''p'') ''process'' = Inr ''blur''"
    by (simp add: str_item_def derived_dict_def)
  have h8: "processing_time_of (derived_dict ''c'' ''p'') = Inr 5"
    by (simp add: processing_time_of_def derived_dict_def py_int_def)
  have h9: "image_error example_runtime
              ((uploaded ''p'' ''u'')\<lparr>child_ids := child_ids (uploaded ''p'' ''u'') @ [''c'']\<rparr>)
              = None"
    by (simp add: example_runtime_def mapper_image_error_def uploaded_def)
  have h10: "user_error example_runtime
      ((uploader ''u'' ''p'')\<lparr>uploads :=
          dict_set (hd (process_history (uploaded ''p'' ''u'') @ [''c''])) ''c''
            (uploads (uploader ''u'' ''p''))\<rparr>) = None"
    by (simp add: example_runtime_def mapper_user_error_def uploaded_def uploader_def)
  have h11: "image_error example_runtime
      \<lparr>image_id = ''c'', user_id = ''u'', timestamp = 0,
       description = description_of (derived_dict ''c'' ''p''),
       parent_id = PStr ''p'', child_ids = [],
       process_history = process_history (uploaded ''p'' ''u'') @ [''c''],
       processing_time = 5, process = ''blur''\<rparr> = None"
    by (simp add: example_runtime_def mapper_image_error_def description_of_def
        derived_dict_def)
  from add_image_child_links_parent[OF h1 h2 h3 h4 h5 h6 h7 h8 h9 h10 h11]
       h1 h2 h3 h4 h5 h6 h7 h8 h9 h10
  show ?thesis by (simp add: uploaded_def uploader_def)
qed

text \<open>
  C2 as stated fails where \<open>image_id\<close> is the identifier of \<open>P\<close> itself: the new
  document is saved under the key of \<open>P\<close> and replaces it, so the stored record of that
  key has no children. Here the user \<open>u\<close> adds \<open>p\<close> with the parent \<open>p\<close> to \<open>store1\<close>.
\<close>

theorem add_image_self_parent_overwrites:
  "image_parameter_check example_runtime (derived_info ''p'' ''p'')
     = Inr (derived_dict ''p'' ''p'')
   \<and> find_image store1 (PStr ''p'') = Some (uploaded ''p'' ''u'')
   \<and> find_user store1 ''u'' = Some (uploader ''u'' ''p'')
   \<and> fst (add_image example_runtime 0 store1 ''u'' (derived_info ''p'' ''p''))
       = Inr [(''image_id'', PStr ''p''), (''user_id'', PStr ''u'')]
   \<and> map_option child_ids
        (find_image (snd (add_image example_runtime 0 store1 ''u'' (derived_info ''p'' ''p'')))
           (PStr ''p''))
       = Some []
   \<and> child_ids (uploaded ''p'' ''u'') @ [''p''] \<noteq> []"
  by (simp add: add_image_def check_derived_info derived_dict_def str_item_def parent_link_def
      processing_time_of_def py_int_def update_user_uploads_def find_user_def find_image_def
      user_to_json_def set_upload_def add_child_def store1_def uploaded_def uploader_def
      image_to_json_def save_image_def save_user_def description_of_def
      example_runtime_def mapper_image_error_def mapper_user_error_def)

text \<open>
  C3. Claim: for every \<open>user_id\<close> and non-empty history, \<open>update_user_uploads\<close> creates
  the user when there is none, and afterwards \<open>uploads[history[0]] == history[-1]\<close>.

  For a user who has a record that the mapper accepts this holds
  (\<open>update_user_uploads_sets_upload\<close>). For a user without one, the user is created with
  no uploads, and then \<open>user.uploads\<close> is read of the dictionary \<open>add_user\<close> returned:
  the call raises and the upload is never recorded. Here the user \<open>v\<close> is not in
  \<open>store1\<close>.
\<close>

theorem update_user_uploads_new_user_raises:
  "update_user_uploads example_runtime store1 ''v'' [''a''] =
     (Inl (no_attribute ''dict'' ''uploads''),
      store1\<lparr>users := users store1 @ [\<lparr>User.user_id = ''v'', uploads = []\<rparr>]\<rparr>)"
  by (simp add: update_user_uploads_def add_user_def find_user_def user_to_json_def
      set_upload_def store1_def uploader_def save_user_def example_runtime_def
      mapper_user_error_def)

text \<open>
  C4, as amended. Whatever attributes the interpreter gives \<open>object\<close>, \<open>valid_process p\<close>
  holds exactly when \<open>p\<close> is \<open>upload\<close> or the name of a callable attribute of the class
  \<open>Processing\<close>: one of its seven public operations, one of its three check helpers,
  its constructor \<open>__init__\<close>, or a callable attribute of \<open>object\<close> that the class does
  not define itself.
\<close>

theorem valid_process_iff_callable:
  "valid_process rt p \<longleftrightarrow>
     p = ''upload'' \<or> p \<in> set Processing_operations \<or> p \<in> set Processing_checks
     \<or> p = ''__init__''
     \<or> (p \<notin> set (map fst Processing_attrs) \<and> (p, True) \<in> set (object_attrs rt))"
proof -
  have "valid_process rt p \<longleftrightarrow>
          p = ''upload'' \<or> p \<in> set (map fst (filter snd Processing_attrs))
          \<or> p \<in> set (map fst (filter snd
                 (filter (\<lambda>a. fst a \<notin> set (map fst Processing_attrs)) (object_attrs rt))))"
    by (auto simp: valid_process_def dir_Processing_def)
  then show ?thesis
    unfolding own_callables inherited_callables by auto
qed

text \<open>
  C4 as stated fails: \<open>_check_grayscale\<close> is neither \<open>upload\<close> nor a public operation,
  and \<open>valid_process\<close> accepts it.
\<close>

theorem valid_process_accepts_check_helper:
  "\<not> (valid_process example_runtime ''_check_grayscale'' \<longleftrightarrow>
        (''_check_grayscale'' = ''upload''
         \<or> ''_check_grayscale'' \<in> set Processing_operations))"
  by (simp add: valid_process_def dir_Processing_def Processing_attrs_def
      Processing_operations_def)

text \<open>
  C5. Claim: for an \<open>image_id\<close> that is not in the store, \<open>remove_image\<close> returns a
  falsy or absent result and does not raise.

  The code passes the flag \<open>removed\<close>, here \<open>False\<close>, to \<open>image_to_json\<close>, which reads
  \<open>.image_id\<close> of it: the call raises \<open>AttributeError\<close>. The store is unchanged. Here the
  image \<open>x\<close> is not in \<open>store1\<close>.
\<close>

theorem remove_image_absent_raises:
  "remove_image store1 (PStr ''x'') = (Inl (no_attribute ''bool'' ''image_id''), store1)"
  by (simp add: remove_image_def image_to_json_def store1_def uploaded_def)

text \<open>
  C6. Claim: \<open>find_image_child\<close> returns the children of the image found, and the empty
  list otherwise, also when no image is found, without raising.

  For an image that is in the store the code does so (\<open>find_image_child_found\<close>). When
  none is found, \<open>find_image\<close> returns \<open>None\<close> and \<open>image.child_ids\<close> raises
  \<open>AttributeError\<close>. Here the image \<open>x\<close> is not in \<open>store1\<close>.
\<close>

theorem find_image_child_absent_raises:
  "find_image_child store1 (PStr ''x'') = Inl (no_attribute ''NoneType'' ''child_ids'')"
  by (simp add: find_image_child_def find_image_def store1_def uploaded_def)

text \<open>
  C7, as amended. For every \<open>image_info\<close> that is not a dictionary, or lacks one of
  \<open>image_id\<close>, \<open>image_data\<close>, \<open>processing_time\<close>, \<open>process\<close>, or has one of them of the
  wrong type, or has a process name that \<open>valid_process\<close> refuses, \<open>add_image\<close> raises
  a \<open>TypeError\<close>, an \<open>AttributeError\<close> or a \<open>ValueError\<close> and returns the store it was
  given: nothing was saved. Unless the \<open>image_id\<close> is present and of the wrong type, the
  kind of the error is that of the first constraint violated: an attribute error for a
  missing key, a type error for a wrong type, a value error for a refused name.
\<close>

theorem add_image_malformed_unchanged:
  assumes "malformed rt image_info"
  shows "\<exists>e. add_image rt t s uid image_info = (Inl e, s)
        \<and> input_error e
        \<and> (image_id_wrong_type image_info
            \<or> (\<exists>ks. violated_kinds rt image_info = kind_of e # ks))"
proof -
  from check_malformed[OF assms] obtain e where
    c: "image_parameter_check rt image_info = Inl e" and i: "input_error e"
    and k: "image_id_wrong_type image_info
            \<or> (\<exists>ks. violated_kinds rt image_info = kind_of e # ks)"
    by blast
  have "add_image rt t s uid image_info = (Inl e, s)" using c by (simp add: add_image_def)
  then show ?thesis using i k by blast
qed

text \<open>An \<open>image_info\<close> whose \<open>image_data\<close> is a number and whose last two keys are
  missing: the first violation is the type of \<open>image_data\<close>.\<close>

theorem add_image_malformed_unchanged_witness:
  "malformed example_runtime (PDict [(''image_id'', PStr ''a''), (''image_data'', PInt 5)])
   \<and> \<not> image_id_wrong_type (PDict [(''image_id'', PStr ''a''), (''image_data'', PInt 5)])
   \<and> violated_kinds example_runtime
        (PDict [(''image_id'', PStr ''a''), (''image_data'', PInt 5)])
       = [TypeKind, AttributeKind, AttributeKind]
   \<and> (\<exists>e. add_image example_runtime 0 store1 ''u''
              (PDict [(''image_id'', PStr ''a''), (''image_data'', PInt 5)]) = (Inl e, store1)
        \<and> input_error e \<and> kind_of e = TypeKind)"
proof -
  let ?v = "PDict [(''image_id'', PStr ''a''), (''image_data'', PInt 5)]"
  have h: "malformed example_runtime ?v"
    by (simp add: malformed_def malformed_with_def field_is_def)
  have w: "\<not> image_id_wrong_type ?v" by (simp add: image_id_wrong_type_def)
  have k: "violated_kinds example_runtime ?v = [TypeKind, AttributeKind, AttributeKind]"
    by (simp add: violated_kinds_def field_kinds_def field_is_def)
  from add_image_malformed_unchanged[OF h, of 0 store1 "''u''"] h w k show ?thesis by auto
qed

text \<open>
  C7 as stated fails for a process name that the claim does not recognise and
  \<open>valid_process\<close> accepts: \<open>add_image\<close> does not raise, and saves the image. Here the
  user \<open>u\<close> adds the image \<open>a\<close> with the process \<open>_check_grayscale\<close> to \<open>store1\<close>.
\<close>

theorem add_image_accepts_check_helper:
  "malformed_as_claimed (helper_info ''a'')
   \<and> fst (add_image example_runtime 0 store1 ''u'' (helper_info ''a''))
       = Inr [(''image_id'', PStr ''a''), (''user_id'', PStr ''u'')]
   \<and> find_image store1 (PStr ''a'') = None
   \<and> map_option process
        (find_image (snd (add_image example_runtime 0 store1 ''u'' (helper_info ''a'')))
           (PStr ''a''))
       = Some ''_check_grayscale''"
  by (simp add: malformed_as_claimed_def malformed_with_def field_is_def
      recognised_as_claimed_def Processing_operations_def helper_info_def
      add_image_def check_helper_info[unfolded helper_info_def] str_item_def parent_link_def
      processing_time_of_def py_int_def update_user_uploads_def find_user_def find_image_def
      user_to_json_def set_upload_def store1_def uploaded_def uploader_def
      image_to_json_def save_image_def save_user_def description_of_def
      example_runtime_def mapper_image_error_def mapper_user_error_def)

text \<open>
  C8. Given an array of rank 3, \<open>hist_eq\<close> and \<open>reverse_video\<close>, the two operations that
  call \<open>_check_grayscale\<close>, fail with \<open>GrayscaleError\<close>, which is neither a \<open>TypeError\<close>
  nor a \<open>ValueError\<close>, whatever the imaging library would compute.
\<close>

theorem grayscale_only_rejects_rank3:
  assumes "length shp = 3"
  shows "hist_eq equalize_hist (NDArray shp px) = Inl (GrayscaleError ''Image is a color image'')
       \<and> reverse_video invert (NDArray shp px) = Inl (GrayscaleError ''Image is a color image'')
       \<and> (\<forall>m. hist_eq equalize_hist (NDArray shp px) \<noteq> Inl (TypeError m)
              \<and> hist_eq equalize_hist (NDArray shp px) \<noteq> Inl (ValueError m)
              \<and> reverse_video invert (NDArray shp px) \<noteq> Inl (TypeError m)
              \<and> reverse_video invert (NDArray shp px) \<noteq> Inl (ValueError m))"
  using assms
  by (simp add: hist_eq_def reverse_video_def check_image_type_def check_image_shape_def
      check_grayscale_def)

text \<open>An image of 2 by 2 pixels with 3 channels.\<close>

theorem grayscale_only_rejects_rank3_witness:
  "length [2, 2, 3 :: nat] = 3
   \<and> hist_eq (\<lambda>_. ()) (NDArray [2, 2, 3] (replicate 12 (0 :: nat)))
       = Inl (GrayscaleError ''Image is a color image'')
   \<and> reverse_video (\<lambda>_. ()) (NDArray [2, 2, 3] (replicate 12 (0 :: nat)))
       = Inl (GrayscaleError ''Image is a color image'')"
proof -
  have h: "length [2, 2, 3 :: nat] = 3" by simp
  from grayscale_only_rejects_rank3[OF h, of "\<lambda>_. ()" "replicate 12 (0 :: nat)" "\<lambda>_. ()"] h
  show ?thesis by blast
qed

text \<open>
  C10. When \<open>remove_image\<close> finds the image, it still raises \<open>AttributeError\<close>, for
  \<open>image_to_json\<close> is given the flag \<open>True\<close>; the deletion has been made by then: the
  store holds no image of that identifier, its other images and its users are as
  before.
\<close>

theorem remove_image_found_raises:
  assumes "find_image s k = Some i"
  shows "fst (remove_image s k) = Inl (no_attribute ''bool'' ''image_id'')
       \<and> images (snd (remove_image s k)) = filter (\<lambda>x. PStr (image_id x) \<noteq> k) (images s)
       \<and> users (snd (remove_image s k)) = users s
       \<and> find_image (snd (remove_image s k)) k = None"
proof -
  have "\<exists>x \<in> set (images s). PStr (image_id x) = k"
    using assms find_image_in_mem find_image_in_id unfolding find_image_def by blast
  then have "remove_image s k = (Inl (no_attribute ''bool'' ''image_id''),
       s\<lparr>images := filter (\<lambda>x. PStr (image_id x) \<noteq> k) (images s)\<rparr>)"
    by (simp add: remove_image_def remove_loop_eq image_to_json_def)
  then show ?thesis by (simp add: find_image_def find_image_in_filter)
qed

text \<open>The image \<open>p\<close> of \<open>store1\<close> is removed.\<close>

theorem remove_image_found_raises_witness:
  "find_image store1 (PStr ''p'') = Some (uploaded ''p'' ''u'')
   \<and> fst (remove_image store1 (PStr ''p'')) = Inl (no_attribute ''bool'' ''image_id'')
   \<and> images (snd (remove_image store1 (PStr ''p''))) = []
   \<and> users (snd (remove_image store1 (PStr ''p''))) = users store1
   \<and> find_image (snd (remove_image store1 (PStr ''p''))) (PStr ''p'') = None"
proof -
  have h: "find_image store1 (PStr ''p'') = Some (uploaded ''p'' ''u'')"
    by (simp add: find_image_def store1_def uploaded_def)
  have f: "filter (\<lambda>x. PStr (image_id x) \<noteq> PStr ''p'') (images store1) = []"
    by (simp add: store1_def uploaded_def)
  from remove_image_found_raises[OF h] h f show ?thesis by simp
qed

end
